theory Spec2Isabelle
  imports Complex_Main
begin

section \<open>Python values\<close>

text \<open>
  The scrapers and the storage layer pass around \<^verbatim>\<open>dict[str, Any]\<close> values.  A value of
  type \<^verbatim>\<open>Any\<close> is a JSON-like Python value; a dict is an association list whose first
  binding of a key is the one \<^verbatim>\<open>.get\<close> sees.  Strings are lists of 8-bit characters.
  A float is a binary64 number: a rational that binary64 represents, an infinity or NaN
  (the sign of zero is not kept).
\<close>

datatype pyfloat = Finite rat | PosInf | NegInf | NaN

datatype pyval =
    PNone
  | PBool bool
  | PInt int
  | PFloat pyfloat
  | PStr string
  | PList "pyval list"
  | PDict "(string \<times> pyval) list"

type_synonym pydict = "(string \<times> pyval) list"

datatype exn =
    ValueError
  | TypeError
  | OverflowError
  | AttributeError
  | IndexError
  | KeyError
  | HttpError

text \<open>Truth value testing, as \<^verbatim>\<open>if not x\<close> does it.\<close>

fun truthy :: "pyval \<Rightarrow> bool" where
  "truthy PNone = False"
| "truthy (PBool b) = b"
| "truthy (PInt i) = (i \<noteq> 0)"
| "truthy (PFloat f) = (f \<noteq> Finite 0)"
| "truthy (PStr s) = (s \<noteq> [])"
| "truthy (PList xs) = (xs \<noteq> [])"
| "truthy (PDict d) = (d \<noteq> [])"

text \<open>\<^verbatim>\<open>d.get(k)\<close> and \<^verbatim>\<open>d.get(k, default)\<close> on a dict.\<close>

definition dget :: "pydict \<Rightarrow> string \<Rightarrow> pyval" where
  "dget d k = (case map_of d k of None \<Rightarrow> PNone | Some v \<Rightarrow> v)"

definition dget_default :: "pydict \<Rightarrow> string \<Rightarrow> pyval \<Rightarrow> pyval" where
  "dget_default d k dflt = (case map_of d k of None \<Rightarrow> dflt | Some v \<Rightarrow> v)"

text \<open>The same calls on a value of type \<^verbatim>\<open>Any\<close>: only a dict has \<^verbatim>\<open>.get\<close>.\<close>

fun py_get :: "pyval \<Rightarrow> string \<Rightarrow> pyval \<Rightarrow> exn + pyval" where
  "py_get (PDict d) k dflt = Inr (dget_default d k dflt)"
| "py_get _ k dflt = Inl AttributeError"

text \<open>Iterating a value in a \<^verbatim>\<open>for\<close> loop.\<close>

fun py_iter :: "pyval \<Rightarrow> exn + pyval list" where
  "py_iter (PList xs) = Inr xs"
| "py_iter (PStr s) = Inr (map (\<lambda>c. PStr [c]) s)"
| "py_iter (PDict d) = Inr (map (\<lambda>kv. PStr (fst kv)) d)"
| "py_iter _ = Inl TypeError"

text \<open>Running a fallible function over a list, stopping at the first exception.\<close>

fun map_exn :: "('a \<Rightarrow> exn + 'b) \<Rightarrow> 'a list \<Rightarrow> exn + 'b list" where
  "map_exn f [] = Inr []"
| "map_exn f (x # xs) =
     (case f x of
        Inl e \<Rightarrow> Inl e
      | Inr y \<Rightarrow> (case map_exn f xs of Inl e \<Rightarrow> Inl e | Inr ys \<Rightarrow> Inr (y # ys)))"

text \<open>
  A dict display \<^verbatim>\<open>{k1: e1, k2: e2, ...}\<close> evaluates its values in order; the first one
  that raises ends the evaluation.
\<close>

fun dict_of :: "(string \<times> (exn + pyval)) list \<Rightarrow> exn + pydict" where
  "dict_of [] = Inr []"
| "dict_of ((k, Inl e) # kvs) = Inl e"
| "dict_of ((k, Inr v) # kvs) =
     (case dict_of kvs of Inl e \<Rightarrow> Inl e | Inr d \<Rightarrow> Inr ((k, v) # d))"

section \<open>Strings and numbers\<close>

definition digit_char :: "nat \<Rightarrow> char" where
  "digit_char d = ''0123456789'' ! d"

fun digits10 :: "nat \<Rightarrow> string" where
  "digits10 n =
     (if n < 10 then [digit_char n] else digits10 (n div 10) @ [digit_char (n mod 10)])"

declare digits10.simps [simp del]

text \<open>\<^verbatim>\<open>str(i)\<close> and \<^verbatim>\<open>f"{i}"\<close> for an int.\<close>

definition str_int :: "int \<Rightarrow> string" where
  "str_int i = (if i < 0 then CHR ''-'' # digits10 (nat (- i)) else digits10 (nat i))"

text \<open>Zero padding to a width, as the format \<^verbatim>\<open>%02d\<close>.\<close>

definition zero_pad :: "nat \<Rightarrow> nat \<Rightarrow> string" where
  "zero_pad w n = replicate (w - length (digits10 n)) CHR ''0'' @ digits10 n"

subsection \<open>Characters\<close>

text \<open>
  Characters are taken by their code.  Whitespace is what \<^verbatim>\<open>str.strip\<close>, \<^verbatim>\<open>float\<close>,
  \<^verbatim>\<open>int\<close> and the pattern \<^verbatim>\<open>\s\<close> take for it below code 256; case conversion moves
  the letters a to z and A to Z and leaves every other character alone.
\<close>

definition py_isspace :: "char \<Rightarrow> bool" where
  "py_isspace c =
     (let n = (of_char c :: nat)
      in (9 \<le> n \<and> n \<le> 13) \<or> (28 \<le> n \<and> n \<le> 32) \<or> n = 133 \<or> n = 160)"

definition is_digit :: "char \<Rightarrow> bool" where
  "is_digit c = (let n = (of_char c :: nat) in 48 \<le> n \<and> n \<le> 57)"

definition digit_val :: "char \<Rightarrow> nat" where
  "digit_val c = of_char c - 48"

definition upper_char :: "char \<Rightarrow> char" where
  "upper_char c =
     (let n = (of_char c :: nat) in if 97 \<le> n \<and> n \<le> 122 then char_of (n - 32) else c)"

definition lower_char :: "char \<Rightarrow> char" where
  "lower_char c =
     (let n = (of_char c :: nat) in if 65 \<le> n \<and> n \<le> 90 then char_of (n + 32) else c)"

definition upper :: "string \<Rightarrow> string" where
  "upper s = map upper_char s"

definition lower :: "string \<Rightarrow> string" where
  "lower s = map lower_char s"

text \<open>\<^verbatim>\<open>s.strip()\<close>\<close>

definition strip :: "string \<Rightarrow> string" where
  "strip s = rev (dropWhile py_isspace (rev (dropWhile py_isspace s)))"

text \<open>\<^verbatim>\<open>s.replace(c, "")\<close> for a one-character \<^verbatim>\<open>c\<close>.\<close>

definition remove_char :: "char \<Rightarrow> string \<Rightarrow> string" where
  "remove_char c s = filter (\<lambda>x. x \<noteq> c) s"

text \<open>\<^verbatim>\<open>needle in hay\<close> for strings.\<close>

fun starts_with :: "string \<Rightarrow> string \<Rightarrow> bool" where
  "starts_with [] hay = True"
| "starts_with (n # ns) [] = False"
| "starts_with (n # ns) (h # hs) = (n = h \<and> starts_with ns hs)"

fun contains :: "string \<Rightarrow> string \<Rightarrow> bool" where
  "contains needle [] = (needle = [])"
| "contains needle (h # hs) = (starts_with needle (h # hs) \<or> contains needle hs)"

text \<open>\<^verbatim>\<open>sep.join(parts)\<close>\<close>

fun join :: "string \<Rightarrow> string list \<Rightarrow> string" where
  "join sep [] = []"
| "join sep [p] = p"
| "join sep (p # q # ps) = p @ sep @ join sep (q # ps)"

definition digits_value :: "string \<Rightarrow> int" where
  "digits_value ds = foldl (\<lambda>a c. 10 * a + int (digit_val c)) 0 ds"

subsection \<open>binary64\<close>

definition pow2 :: "int \<Rightarrow> rat" where
  "pow2 k = (if 0 \<le> k then 2 ^ nat k else 1 / 2 ^ nat (- k))"

definition pow10 :: "int \<Rightarrow> rat" where
  "pow10 k = (if 0 \<le> k then 10 ^ nat k else 1 / 10 ^ nat (- k))"

function bitlen :: "int \<Rightarrow> nat" where
  "bitlen n = (if n \<le> 0 then 0 else Suc (bitlen (n div 2)))"
  by pat_completeness auto
termination
  by (relation "measure nat") auto

declare bitlen.simps [simp del]

text \<open>The exponent of the leading bit of a positive rational.\<close>

definition floor_log2 :: "rat \<Rightarrow> int" where
  "floor_log2 a =
     (let (n, d) = quotient_of a;
          k = int (bitlen n) - int (bitlen d)
      in if pow2 k \<le> a then k else k - 1)"

definition round_half_even :: "rat \<Rightarrow> int" where
  "round_half_even x =
     (let f = \<lfloor>x\<rfloor>; r = x - of_int f
      in if r < 1 / 2 then f
         else if 1 / 2 < r then f + 1
         else if even f then f else f + 1)"

text \<open>
  Rounding a rational to the nearest binary64 number, ties to even: 53 significant
  bits \<open>m\<close> at the exponent \<open>e\<close>, the least exponent being -1074.  The largest
  finite number is \<open>(2 ^ 53 - 1) * 2 ^ 971\<close>; what rounds beyond it is an infinity.
\<close>

definition round_double :: "rat \<Rightarrow> pyfloat" where
  "round_double q =
     (if q = 0 then Finite 0
      else
        (let a = \<bar>q\<bar>;
             e = max (floor_log2 a - 52) (- 1074);
             m = round_half_even (a / pow2 e)
         in if 971 < e \<or> (e = 971 \<and> m = 9007199254740992)
            then (if q < 0 then NegInf else PosInf)
            else Finite (if q < 0 then - (of_int m * pow2 e) else of_int m * pow2 e)))"

subsection \<open>\<^verbatim>\<open>float()\<close> and \<^verbatim>\<open>int()\<close>\<close>

text \<open>
  An underscore in a numeric literal stands between two digits: it follows a digit and a
  digit follows it.
\<close>

fun underscores_ok :: "char option \<Rightarrow> string \<Rightarrow> bool" where
  "underscores_ok prev [] = (prev \<noteq> Some CHR ''_'')"
| "underscores_ok prev (c # cs) =
     ((if c = CHR ''_'' then (case prev of None \<Rightarrow> False | Some p \<Rightarrow> is_digit p)
       else if prev = Some CHR ''_'' then is_digit c else True)
      \<and> underscores_ok (Some c) cs)"

definition split_sign :: "string \<Rightarrow> bool \<times> string" where
  "split_sign s =
     (case s of
        [] \<Rightarrow> (False, [])
      | c # cs \<Rightarrow>
          if c = CHR ''-'' then (True, cs)
          else if c = CHR ''+'' then (False, cs)
          else (False, s))"

text \<open>
  An unsigned decimal literal: digits, an optional point and digits, at least one digit
  in all, and an optional exponent that has at least one digit.
\<close>

definition parse_decimal :: "string \<Rightarrow> rat option" where
  "parse_decimal s =
     (let ip = takeWhile is_digit s;
          r1 = dropWhile is_digit s;
          (fp, r2) =
            (case r1 of
               [] \<Rightarrow> ([], r1)
             | c # t \<Rightarrow>
                 if c = CHR ''.'' then (takeWhile is_digit t, dropWhile is_digit t)
                 else ([], r1))
      in if ip = [] \<and> fp = [] then None
         else
           (let m = of_int (digits_value (ip @ fp)) / 10 ^ length fp
            in case r2 of
                 [] \<Rightarrow> Some m
               | c # t \<Rightarrow>
                   if c = CHR ''e'' \<or> c = CHR ''E'' then
                     (let (neg, ds) = split_sign t
                      in if ds \<noteq> [] \<and> list_all is_digit ds then
                           Some (m * pow10 (if neg then - digits_value ds else digits_value ds))
                         else None)
                   else None))"

text \<open>\<^verbatim>\<open>float(s)\<close> for a string: \<^verbatim>\<open>ValueError\<close> when it is no float literal.\<close>

definition py_float_str :: "string \<Rightarrow> exn + pyfloat" where
  "py_float_str s =
     (let t = strip s
      in if \<not> underscores_ok None t then Inl ValueError
         else
           (let (neg, body) = split_sign (remove_char CHR ''_'' t)
            in if lower body = ''inf'' \<or> lower body = ''infinity'' then
                 Inr (if neg then NegInf else PosInf)
               else if lower body = ''nan'' then Inr NaN
               else
                 (case parse_decimal body of
                    None \<Rightarrow> Inl ValueError
                  | Some q \<Rightarrow> Inr (round_double (if neg then - q else q)))))"

text \<open>\<^verbatim>\<open>float(v)\<close> for any value.\<close>

fun py_float :: "pyval \<Rightarrow> exn + pyfloat" where
  "py_float (PStr s) = py_float_str s"
| "py_float (PFloat f) = Inr f"
| "py_float (PBool b) = Inr (Finite (if b then 1 else 0))"
| "py_float (PInt i) =
     (case round_double (of_int i) of
        Finite q \<Rightarrow> Inr (Finite q)
      | _ \<Rightarrow> Inl OverflowError)"
| "py_float _ = Inl TypeError"

text \<open>\<^verbatim>\<open>int(f)\<close> for a float: truncation towards zero.\<close>

fun py_int_of_float :: "pyfloat \<Rightarrow> exn + int" where
  "py_int_of_float (Finite q) = Inr (if 0 \<le> q then \<lfloor>q\<rfloor> else \<lceil>q\<rceil>)"
| "py_int_of_float NaN = Inl ValueError"
| "py_int_of_float _ = Inl OverflowError"

text \<open>
  \<^verbatim>\<open>f * k\<close> for a float and a positive int constant that binary64 represents exactly
  (\<^verbatim>\<open>1_000_000\<close> and \<^verbatim>\<open>1_000\<close> below).
\<close>

fun fmul_const :: "pyfloat \<Rightarrow> int \<Rightarrow> pyfloat" where
  "fmul_const (Finite q) k = round_double (q * of_int k)"
| "fmul_const f k = f"

text \<open>\<^verbatim>\<open>int(s)\<close> for a string, in base ten.\<close>

definition py_int_str :: "string \<Rightarrow> exn + int" where
  "py_int_str s =
     (let (neg, body) = split_sign (strip s);
          ds = remove_char CHR ''_'' body
      in if ds \<noteq> [] \<and> list_all is_digit ds \<and> underscores_ok None body then
           Inr (if neg then - digits_value ds else digits_value ds)
         else Inl ValueError)"

subsection \<open>Exceptions\<close>

definition bind_exn :: "exn + 'a \<Rightarrow> ('a \<Rightarrow> exn + 'b) \<Rightarrow> exn + 'b" where
  "bind_exn r f = (case r of Inl e \<Rightarrow> Inl e | Inr x \<Rightarrow> f x)"

text \<open>\<^verbatim>\<open>try: return r  except (e1, e2, ...): return d\<close>\<close>

definition except_return :: "exn list \<Rightarrow> 'a \<Rightarrow> exn + 'a \<Rightarrow> exn + 'a" where
  "except_return caught d r =
     (case r of Inl e \<Rightarrow> if e \<in> set caught then Inr d else Inl e | Inr x \<Rightarrow> Inr x)"

section \<open>The clock, the network and the log\<close>

record datetime =
  year :: int
  month :: int
  day :: nat
  hour :: nat
  minute :: nat
  second :: nat
  microsecond :: nat

text \<open>\<^verbatim>\<open>datetime.isoformat()\<close>: the microseconds appear only when they are not zero.\<close>

definition isoformat :: "datetime \<Rightarrow> string" where
  "isoformat d =
     zero_pad 4 (nat (year d)) @ ''-'' @ zero_pad 2 (nat (month d)) @ ''-'' @ zero_pad 2 (day d)
     @ ''T'' @ zero_pad 2 (hour d) @ '':'' @ zero_pad 2 (minute d) @ '':'' @ zero_pad 2 (second d)
     @ (if microsecond d = 0 then [] else ''.'' @ zero_pad 6 (microsecond d))"

datatype log_event = LogEvent string string "(string \<times> pyval) list"

text \<open>
  What a scraper changes outside itself: how often it has read the clock, the paths it
  has requested (oldest first) and the events it has logged (oldest first).  The text of
  a logged exception is not kept.
\<close>

record world =
  ticks :: nat
  requested :: "string list"
  logged :: "log_event list"

text \<open>
  What the outside gives a scraper: the answer to a request for a path (the payload of
  \<^verbatim>\<open>BaseScraper.get_json\<close>, or the exception it raises), and the successive readings
  of \<^verbatim>\<open>datetime.now()\<close>.
\<close>

record 'r env =
  respond :: "string \<Rightarrow> exn + 'r"
  clock :: "nat \<Rightarrow> datetime"

definition now :: "'r env \<Rightarrow> world \<Rightarrow> datetime \<times> world" where
  "now E w = (clock E (ticks w), w\<lparr>ticks := Suc (ticks w)\<rparr>)"

definition fetch :: "'r env \<Rightarrow> string \<Rightarrow> world \<Rightarrow> (exn + 'r) \<times> world" where
  "fetch E path w = (respond E path, w\<lparr>requested := requested w @ [path]\<rparr>)"

definition log :: "string \<Rightarrow> string \<Rightarrow> (string \<times> pyval) list \<Rightarrow> world \<Rightarrow> world" where
  "log lvl ev kvs w = w\<lparr>logged := logged w @ [LogEvent lvl ev kvs]\<rparr>"

section \<open>Season ids\<close>

text \<open>\<^verbatim>\<open>NHLRosterScraper.get_current_season\<close>, on the reading of the clock.\<close>

definition roster_season_of :: "datetime \<Rightarrow> string" where
  "roster_season_of d =
     (let y = (if month d \<ge> 10 then year d else year d - 1)
      in str_int y @ str_int (y + 1))"

definition roster_get_current_season :: "'r env \<Rightarrow> world \<Rightarrow> string \<times> world" where
  "roster_get_current_season E w = (let (d, w') = now E w in (roster_season_of d, w'))"

text \<open>\<^verbatim>\<open>MoneyPuckScraper.get_current_season\<close>.\<close>

definition moneypuck_season_of :: "datetime \<Rightarrow> string" where
  "moneypuck_season_of d = str_int (if month d \<ge> 10 then year d else year d - 1)"

definition moneypuck_get_current_season :: "'r env \<Rightarrow> world \<Rightarrow> string \<times> world" where
  "moneypuck_get_current_season E w = (let (d, w') = now E w in (moneypuck_season_of d, w'))"

section \<open>Team rosters\<close>

definition NHL_TEAMS :: "string list" where
  "NHL_TEAMS =
     [''ANA'', ''ARI'', ''BOS'', ''BUF'', ''CAR'', ''CBJ'', ''CGY'', ''CHI'',
      ''COL'', ''DAL'', ''DET'', ''EDM'', ''FLA'', ''LAK'', ''MIN'', ''MTL'',
      ''NJD'', ''NSH'', ''NYI'', ''NYR'', ''OTT'', ''PHI'', ''PIT'', ''SEA'',
      ''SJS'', ''STL'', ''TBL'', ''TOR'', ''UTA'', ''VAN'', ''VGK'', ''WPG'', ''WSH'']"

text \<open>\<^verbatim>\<open>data.get(k, {}).get("default", dflt)\<close>\<close>

definition nested_default :: "pyval \<Rightarrow> string \<Rightarrow> pyval \<Rightarrow> exn + pyval" where
  "nested_default data k dflt =
     (case py_get data k (PDict []) of
        Inl e \<Rightarrow> Inl e
      | Inr inner \<Rightarrow> py_get inner ''default'' dflt)"

definition parse_player :: "pyval \<Rightarrow> exn + pydict" where
  "parse_player data = dict_of
     [(''player_id'', py_get data ''id'' PNone),
      (''first_name'', nested_default data ''firstName'' (PStr [])),
      (''last_name'', nested_default data ''lastName'' (PStr [])),
      (''jersey_number'', py_get data ''sweaterNumber'' PNone),
      (''position'', py_get data ''positionCode'' PNone),
      (''shoots_catches'', py_get data ''shootsCatches'' PNone),
      (''height_inches'', py_get data ''heightInInches'' PNone),
      (''weight_pounds'', py_get data ''weightInPounds'' PNone),
      (''birth_date'', py_get data ''birthDate'' PNone),
      (''birth_city'', nested_default data ''birthCity'' PNone),
      (''birth_country'', py_get data ''birthCountry'' PNone),
      (''nationality'', py_get data ''nationality'' PNone)]"

text \<open>One position group of the payload, each entry through \<^verbatim>\<open>_parse_player\<close>.\<close>

definition parse_group :: "pyval \<Rightarrow> string \<Rightarrow> exn + pyval list" where
  "parse_group data k =
     (case py_get data k (PList []) of
        Inl e \<Rightarrow> Inl e
      | Inr g \<Rightarrow>
          (case py_iter g of
             Inl e \<Rightarrow> Inl e
           | Inr ps \<Rightarrow>
               map_exn (\<lambda>p. case parse_player p of Inl e \<Rightarrow> Inl e | Inr d \<Rightarrow> Inr (PDict d)) ps))"

definition roster_path :: "string \<Rightarrow> string" where
  "roster_path team_abbrev = ''/roster/'' @ team_abbrev @ ''/current''"

text \<open>
  \<^verbatim>\<open>scrape_roster\<close>: the season defaults to the current one, the request is made, the
  clock is read for \<^verbatim>\<open>as_of_date\<close>, then the three groups are parsed in order.
\<close>

definition scrape_roster ::
  "pyval env \<Rightarrow> string \<Rightarrow> string option \<Rightarrow> world \<Rightarrow> (exn + pydict) \<times> world" where
  "scrape_roster E team_abbrev season w0 =
     (let (season', w1) =
            (case season of
               None \<Rightarrow> roster_get_current_season E w0
             | Some s \<Rightarrow> (s, w0));
          (resp, w2) = fetch E (roster_path team_abbrev) w1
      in case resp of
           Inl e \<Rightarrow> (Inl e, w2)
         | Inr data \<Rightarrow>
             (let (d, w3) = now E w2
              in case parse_group data ''forwards'' of
                   Inl e \<Rightarrow> (Inl e, w3)
                 | Inr fs \<Rightarrow>
                     (case parse_group data ''defensemen'' of
                        Inl e \<Rightarrow> (Inl e, w3)
                      | Inr ds \<Rightarrow>
                          (case parse_group data ''goalies'' of
                             Inl e \<Rightarrow> (Inl e, w3)
                           | Inr gs \<Rightarrow>
                               (Inr [(''team_abbrev'', PStr team_abbrev),
                                     (''season'', PStr season'),
                                     (''as_of_date'', PStr (isoformat d)),
                                     (''forwards'', PList fs),
                                     (''defensemen'', PList ds),
                                     (''goalies'', PList gs)],
                                log ''info'' ''scraped_roster''
                                  [(''team'', PStr team_abbrev),
                                   (''forwards'', PInt (int (length fs))),
                                   (''defensemen'', PInt (int (length ds))),
                                   (''goalies'', PInt (int (length gs)))] w3)))))"

text \<open>The loop of \<^verbatim>\<open>scrape_all_rosters\<close> over the team codes.\<close>

fun scrape_rosters_loop ::
  "pyval env \<Rightarrow> string \<Rightarrow> string list \<Rightarrow> pydict list \<Rightarrow> world \<Rightarrow> pydict list \<times> world" where
  "scrape_rosters_loop E season [] rosters w = (rosters, w)"
| "scrape_rosters_loop E season (team # teams) rosters w =
     (case scrape_roster E team (Some season) w of
        (Inr roster, w') \<Rightarrow> scrape_rosters_loop E season teams (rosters @ [roster]) w'
      | (Inl e, w') \<Rightarrow>
          scrape_rosters_loop E season teams rosters
            (log ''warning'' ''roster_scrape_failed'' [(''team'', PStr team)] w'))"

definition scrape_all_rosters ::
  "pyval env \<Rightarrow> string option \<Rightarrow> world \<Rightarrow> pydict list \<times> world" where
  "scrape_all_rosters E season w0 =
     (let (season', w1) =
            (case season of
               None \<Rightarrow> roster_get_current_season E w0
             | Some s \<Rightarrow> (s, w0));
          (rosters, w2) = scrape_rosters_loop E season' NHL_TEAMS [] w1
      in (rosters,
          log ''info'' ''scraped_all_rosters''
            [(''count'', PInt (int (length rosters))), (''season'', PStr season')] w2))"

section \<open>Advanced statistics from CSV\<close>

text \<open>
  The two helpers of \<^verbatim>\<open>_parse_skater_row\<close> and \<^verbatim>\<open>_parse_goalie_row\<close>.  Both catch
  \<^verbatim>\<open>ValueError\<close> and \<^verbatim>\<open>TypeError\<close> only.
\<close>

definition safe_int :: "pyval \<Rightarrow> int \<Rightarrow> exn + int" where
  "safe_int val dflt =
     except_return [ValueError, TypeError] dflt
       (if truthy val then bind_exn (py_float val) py_int_of_float else Inr dflt)"

definition safe_float :: "pyval \<Rightarrow> pyval \<Rightarrow> exn + pyval" where
  "safe_float val dflt =
     except_return [ValueError, TypeError] dflt
       (if truthy val then bind_exn (py_float val) (\<lambda>f. Inr (PFloat f)) else Inr dflt)"

text \<open>An int field and a float field of a row, with the defaults the source passes.\<close>

definition int_field :: "pydict \<Rightarrow> string \<Rightarrow> exn + pyval" where
  "int_field row k = bind_exn (safe_int (dget row k) 0) (\<lambda>i. Inr (PInt i))"

definition float_field :: "pydict \<Rightarrow> string \<Rightarrow> exn + pyval" where
  "float_field row k = safe_float (dget row k) PNone"

definition float_field0 :: "pydict \<Rightarrow> string \<Rightarrow> exn + pyval" where
  "float_field0 row k = safe_float (dget row k) (PFloat (Finite 0))"

text \<open>\<^verbatim>\<open>f"{season}{int(season)+1}"\<close>\<close>

definition double_season :: "string \<Rightarrow> exn + pyval" where
  "double_season season =
     bind_exn (py_int_str season) (\<lambda>n. Inr (PStr (season @ str_int (n + 1))))"

definition corsi_for_field :: "pydict \<Rightarrow> exn + pyval" where
  "corsi_for_field row =
     (if truthy (dget row ''onIce_corsiPercentage'') then int_field row ''onIce_corsiPercentage''
      else
        bind_exn (safe_int (dget_default row ''I_F_shotAttempts'' (PInt 0)) 0) (\<lambda>a.
        bind_exn (safe_int (dget_default row ''OnIce_F_shotAttempts'' (PInt 0)) 0) (\<lambda>b.
        Inr (PInt (a + b)))))"

definition parse_skater_row :: "pydict \<Rightarrow> string \<Rightarrow> exn + pydict" where
  "parse_skater_row row season = dict_of
     [(''player_id'', int_field row ''playerId''),
      (''player_name'', Inr (dget_default row ''name'' (PStr []))),
      (''team_abbrev'', Inr (dget_default row ''team'' (PStr []))),
      (''position'', Inr (dget_default row ''position'' (PStr []))),
      (''season'', double_season season),
      (''situation'', Inr (dget_default row ''situation'' (PStr ''all''))),
      (''games_played'', int_field row ''games_played''),
      (''toi_seconds'', int_field row ''icetime''),
      (''corsi_for'', corsi_for_field row),
      (''corsi_against'', int_field row ''OnIce_A_shotAttempts''),
      (''corsi_pct'', float_field row ''onIce_corsiPercentage''),
      (''corsi_rel'', float_field row ''offIce_corsiPercentage''),
      (''fenwick_for'', int_field row ''OnIce_F_unblockedShotAttempts''),
      (''fenwick_against'', int_field row ''OnIce_A_unblockedShotAttempts''),
      (''fenwick_pct'', float_field row ''onIce_fenwickPercentage''),
      (''xg_for'', float_field0 row ''OnIce_F_xGoals''),
      (''xg_against'', float_field0 row ''OnIce_A_xGoals''),
      (''xg_pct'', float_field row ''onIce_xGoalsPercentage''),
      (''individual_xg'', float_field0 row ''I_F_xGoals''),
      (''goals_above_expected'', float_field row ''I_F_xGoals_with_rebounds_normalized_per_game''),
      (''scoring_chances_for'', int_field row ''OnIce_F_scoringChances''),
      (''scoring_chances_against'', int_field row ''OnIce_A_scoringChances''),
      (''high_danger_chances_for'', int_field row ''OnIce_F_highDangerShotAttempts''),
      (''high_danger_chances_against'', int_field row ''OnIce_A_highDangerShotAttempts''),
      (''high_danger_goals_for'', int_field row ''OnIce_F_highDangerGoals''),
      (''high_danger_goals_against'', int_field row ''OnIce_A_highDangerGoals''),
      (''offensive_zone_starts'', int_field row ''I_F_oZoneShiftStarts''),
      (''defensive_zone_starts'', int_field row ''I_F_dZoneShiftStarts''),
      (''neutral_zone_starts'', int_field row ''I_F_neutralZoneShiftStarts''),
      (''offensive_zone_start_pct'', float_field row ''offensiveZoneStartPct''),
      (''on_ice_sh_pct'', float_field row ''onIce_F_shootingPct''),
      (''on_ice_sv_pct'', float_field row ''onIce_A_savePct''),
      (''pdo'', float_field row ''PDO''),
      (''shots'', int_field row ''I_F_shotsOnGoal''),
      (''goals'', int_field row ''I_F_goals''),
      (''primary_assists'', int_field row ''I_F_primaryAssists''),
      (''secondary_assists'', int_field row ''I_F_secondaryAssists''),
      (''individual_corsi_for'', int_field row ''I_F_shotAttempts''),
      (''source'', Inr (PStr ''moneypuck''))]"

definition parse_goalie_row :: "pydict \<Rightarrow> string \<Rightarrow> exn + pydict" where
  "parse_goalie_row row season =
     bind_exn (safe_int (dget row ''shotsOnGoal'') 0) (\<lambda>shots_against.
     bind_exn (safe_int (dget row ''goals'') 0) (\<lambda>goals_against.
     dict_of
       [(''player_id'', int_field row ''playerId''),
        (''player_name'', Inr (dget_default row ''name'' (PStr []))),
        (''team_abbrev'', Inr (dget_default row ''team'' (PStr []))),
        (''season'', double_season season),
        (''situation'', Inr (dget_default row ''situation'' (PStr ''all''))),
        (''games_played'', int_field row ''games_played''),
        (''toi_seconds'', int_field row ''icetime''),
        (''shots_against'', Inr (PInt shots_against)),
        (''goals_against'', Inr (PInt goals_against)),
        (''saves'', Inr (PInt (shots_against - goals_against))),
        (''save_pct'', float_field row ''onGoalSavePercentage''),
        (''xg_against'', float_field0 row ''xGoals''),
        (''goals_saved_above_expected'', float_field row ''goalsAboveExpected''),
        (''low_danger_shots'', int_field row ''lowDangerShotsOnGoal''),
        (''low_danger_goals'', int_field row ''lowDangerGoals''),
        (''low_danger_save_pct'', float_field row ''lowDangerSavePercentage''),
        (''medium_danger_shots'', int_field row ''mediumDangerShotsOnGoal''),
        (''medium_danger_goals'', int_field row ''mediumDangerGoals''),
        (''medium_danger_save_pct'', float_field row ''mediumDangerSavePercentage''),
        (''high_danger_shots'', int_field row ''highDangerShotsOnGoal''),
        (''high_danger_goals'', int_field row ''highDangerGoals''),
        (''high_danger_save_pct'', float_field row ''highDangerSavePercentage''),
        (''rebounds_given'', int_field row ''reboundsCreated''),
        (''rebound_goals_against'', int_field row ''reboundGoals''),
        (''freeze_pct'', float_field row ''freezePct''),
        (''source'', Inr (PStr ''moneypuck''))]))"

text \<open>
  The row loops of \<^verbatim>\<open>scrape_skater_stats\<close> and \<^verbatim>\<open>scrape_goalie_stats\<close>: a row whose
  parsing raises \<^verbatim>\<open>ValueError\<close> or \<^verbatim>\<open>KeyError\<close> is logged and left out; any other
  exception ends the scrape.
\<close>

fun parse_rows ::
  "(pydict \<Rightarrow> string \<Rightarrow> exn + pydict) \<Rightarrow> string \<Rightarrow> string \<Rightarrow> pydict list \<Rightarrow> pydict list
     \<Rightarrow> world \<Rightarrow> (exn + pydict list) \<times> world" where
  "parse_rows parse ev season [] acc w = (Inr acc, w)"
| "parse_rows parse ev season (row # rows) acc w =
     (case parse row season of
        Inr p \<Rightarrow> parse_rows parse ev season rows (acc @ [p]) w
      | Inl e \<Rightarrow>
          if e = ValueError \<or> e = KeyError then
            parse_rows parse ev season rows acc
              (log ''warning'' ev [(''player'', dget row ''name'')] w)
          else (Inl e, w))"

definition moneypuck_season ::
  "'r env \<Rightarrow> string option \<Rightarrow> world \<Rightarrow> string \<times> world" where
  "moneypuck_season E season w =
     (case season of None \<Rightarrow> moneypuck_get_current_season E w | Some s \<Rightarrow> (s, w))"

definition skaters_url :: "string \<Rightarrow> string" where
  "skaters_url season = ''/moneypuck/playerData/seasonSummary/'' @ season @ ''/regular/skaters.csv''"

definition goalies_url :: "string \<Rightarrow> string" where
  "goalies_url season = ''/moneypuck/playerData/seasonSummary/'' @ season @ ''/regular/goalies.csv''"

text \<open>
  The environment answers a request with the rows \<^verbatim>\<open>_fetch_csv\<close> returns (the
  header-keyed table of \<^verbatim>\<open>csv.DictReader\<close>), or with the exception it raises.
\<close>

definition scrape_skater_stats ::
  "pydict list env \<Rightarrow> string option \<Rightarrow> string \<Rightarrow> world \<Rightarrow> (exn + pydict list) \<times> world" where
  "scrape_skater_stats E season situation w0 =
     (let (season', w1) = moneypuck_season E season w0;
          csv_url = skaters_url season';
          (resp, w2) = fetch E csv_url w1
      in case resp of
           Inl e \<Rightarrow> (Inr [], log ''error'' ''moneypuck_fetch_failed'' [(''url'', PStr csv_url)] w2)
         | Inr raw_data \<Rightarrow>
             (let rows =
                    (if situation \<noteq> ''all''
                     then filter (\<lambda>r. dget r ''situation'' = PStr situation) raw_data
                     else filter (\<lambda>r. dget r ''situation'' = PStr ''all'') raw_data)
              in case parse_rows parse_skater_row ''parse_skater_failed'' season' rows [] w2 of
                   (Inl e, w3) \<Rightarrow> (Inl e, w3)
                 | (Inr players, w3) \<Rightarrow>
                     (Inr players,
                      log ''info'' ''scraped_skater_stats''
                        [(''count'', PInt (int (length players))), (''season'', PStr season'),
                         (''situation'', PStr situation)] w3)))"

definition scrape_goalie_stats ::
  "pydict list env \<Rightarrow> string option \<Rightarrow> world \<Rightarrow> (exn + pydict list) \<times> world" where
  "scrape_goalie_stats E season w0 =
     (let (season', w1) = moneypuck_season E season w0;
          csv_url = goalies_url season';
          (resp, w2) = fetch E csv_url w1
      in case resp of
           Inl e \<Rightarrow> (Inr [], log ''error'' ''moneypuck_fetch_failed'' [(''url'', PStr csv_url)] w2)
         | Inr raw_data \<Rightarrow>
             (let rows = filter (\<lambda>r. dget r ''situation'' = PStr ''all'') raw_data
              in case parse_rows parse_goalie_row ''parse_goalie_failed'' season' rows [] w2 of
                   (Inl e, w3) \<Rightarrow> (Inl e, w3)
                 | (Inr goalies, w3) \<Rightarrow>
                     (Inr goalies,
                      log ''info'' ''scraped_goalie_stats''
                        [(''count'', PInt (int (length goalies))), (''season'', PStr season')] w3)))"

section \<open>Contracts from HTML\<close>

definition TEAM_SLUGS :: "(string \<times> string) list" where
  "TEAM_SLUGS =
     [(''ANA'', ''anaheim-ducks''),
      (''BOS'', ''boston-bruins''),
      (''BUF'', ''buffalo-sabres''),
      (''CAR'', ''carolina-hurricanes''),
      (''CBJ'', ''columbus-blue-jackets''),
      (''CGY'', ''calgary-flames''),
      (''CHI'', ''chicago-blackhawks''),
      (''COL'', ''colorado-avalanche''),
      (''DAL'', ''dallas-stars''),
      (''DET'', ''detroit-red-wings''),
      (''EDM'', ''edmonton-oilers''),
      (''FLA'', ''florida-panthers''),
      (''LAK'', ''los-angeles-kings''),
      (''MIN'', ''minnesota-wild''),
      (''MTL'', ''montreal-canadiens''),
      (''NJD'', ''new-jersey-devils''),
      (''NSH'', ''nashville-predators''),
      (''NYI'', ''new-york-islanders''),
      (''NYR'', ''new-york-rangers''),
      (''OTT'', ''ottawa-senators''),
      (''PHI'', ''philadelphia-flyers''),
      (''PIT'', ''pittsburgh-penguins''),
      (''SEA'', ''seattle-kraken''),
      (''SJS'', ''san-jose-sharks''),
      (''STL'', ''st-louis-blues''),
      (''TBL'', ''tampa-bay-lightning''),
      (''TOR'', ''toronto-maple-leafs''),
      (''UTA'', ''utah-hockey-club''),
      (''VAN'', ''vancouver-canucks''),
      (''VGK'', ''vegas-golden-knights''),
      (''WPG'', ''winnipeg-jets''),
      (''WSH'', ''washington-capitals'')]"

text \<open>
  \<^verbatim>\<open>_parse_salary\<close>.  The three \<^verbatim>\<open>try\<close> blocks catch \<^verbatim>\<open>ValueError\<close> only; the product
  with the multiplier is a float product, and \<^verbatim>\<open>int\<close> truncates it.
\<close>

definition parse_salary :: "string \<Rightarrow> exn + int" where
  "parse_salary text0 =
     (if text0 = [] then Inr 0
      else
        (let text = remove_char CHR '','' (remove_char CHR ''$'' (strip text0))
         in if CHR ''M'' \<in> set (upper text) then
              except_return [ValueError] 0
                (bind_exn (py_float_str (remove_char CHR ''M'' (upper text)))
                   (\<lambda>f. py_int_of_float (fmul_const f 1000000)))
            else if CHR ''K'' \<in> set (upper text) then
              except_return [ValueError] 0
                (bind_exn (py_float_str (remove_char CHR ''K'' (upper text)))
                   (\<lambda>f. py_int_of_float (fmul_const f 1000)))
            else
              except_return [ValueError] 0 (bind_exn (py_float_str text) py_int_of_float)))"

text \<open>
  A table cell as \<^verbatim>\<open>_parse_contract_row\<close> sees it: its text
  (\<^verbatim>\<open>get_text(strip=True)\<close>) and the text of its first link, when it has one.
\<close>

record cell =
  cell_text :: string
  link_text :: "string option"

text \<open>
  The parsed page: the tables whose class matches \<^verbatim>\<open>cap-table|roster-table\<close>, and all
  tables; a table is the list of its rows and a row the list of its cells.
\<close>

record soup =
  cap_tables :: "cell list list list"
  all_tables :: "cell list list list"

text \<open>The loop over the cells after the first: cap hit, salary and expiry status.\<close>

fun scan_cells :: "string list \<Rightarrow> int \<times> int \<times> pyval \<Rightarrow> exn + int \<times> int \<times> pyval" where
  "scan_cells [] st = Inr st"
| "scan_cells (text # texts) (cap_hit, salary, expiry_status) =
     (if CHR ''$'' \<in> set text then
        (case parse_salary text of
           Inl e \<Rightarrow> Inl e
         | Inr v \<Rightarrow>
             scan_cells texts
               (if cap_hit = 0 then (v, salary, expiry_status)
                else if salary = 0 then (cap_hit, v, expiry_status)
                else (cap_hit, salary, expiry_status)))
      else if upper text \<in> set [''UFA'', ''RFA'', ''10.2(C)''] then
        scan_cells texts (cap_hit, salary, PStr (upper text))
      else scan_cells texts (cap_hit, salary, expiry_status))"

text \<open>
  \<^verbatim>\<open>re.search(r"(\d+)\s*(?:yr|year)", s, re.I)\<close>: the leftmost run of digits that
  whitespace and then "yr" or "year" follow, in any case; the result is the run.
\<close>

fun years_search :: "string \<Rightarrow> string option" where
  "years_search [] = None"
| "years_search (c # cs) =
     (if is_digit c then
        (let rest = dropWhile py_isspace (dropWhile is_digit (c # cs))
         in if starts_with ''yr'' (lower rest) \<or> starts_with ''year'' (lower rest)
            then Some (takeWhile is_digit (c # cs))
            else years_search cs)
      else years_search cs)"

definition header_keywords :: "string list" where
  "header_keywords = [''player'', ''name'', ''pos'']"

definition parse_contract_row ::
  "'r env \<Rightarrow> cell list \<Rightarrow> string \<Rightarrow> world \<Rightarrow> (exn + pydict option) \<times> world" where
  "parse_contract_row E cells team_abbrev w =
     (let cell_texts = map cell_text cells
      in case cells of
           [] \<Rightarrow> (Inl IndexError, w)
         | player_cell # _ \<Rightarrow>
             if list_ex (\<lambda>h. contains h (lower (cell_text player_cell))) header_keywords
             then (Inr None, w)
             else
               (let player_name =
                      (case link_text player_cell of
                         Some t \<Rightarrow> t
                       | None \<Rightarrow> cell_text player_cell)
                in if player_name = [] \<or> length player_name < 2 then (Inr None, w)
                   else
                     (case scan_cells (tl cell_texts) (0, 0, PNone) of
                        Inl e \<Rightarrow> (Inl e, w)
                      | Inr (cap_hit, salary, expiry_status) \<Rightarrow>
                          (let total_years =
                                 (case years_search (join '' '' cell_texts) of
                                    Some ds \<Rightarrow> digits_value ds
                                  | None \<Rightarrow> 1);
                               row_text = upper (join '' '' cell_texts);
                               has_nmc = (contains ''NMC'' row_text \<or> contains ''NO-MOVE'' row_text);
                               has_ntc = (contains ''NTC'' row_text \<or> contains ''NO-TRADE'' row_text);
                               (d, w') = now E w
                           in (Inr (Some
                                 [(''player_name'', PStr player_name),
                                  (''team_abbrev'', PStr team_abbrev),
                                  (''current_cap_hit'', PInt cap_hit),
                                  (''current_salary'', PInt (if salary \<noteq> 0 then salary else cap_hit)),
                                  (''aav'', PInt cap_hit),
                                  (''total_years'', PInt total_years),
                                  (''expiry_status'', expiry_status),
                                  (''has_nmc'', PBool has_nmc),
                                  (''has_ntc'', PBool has_ntc),
                                  (''source'', PStr ''puckpedia''),
                                  (''scraped_at'', PStr (isoformat d))]), w')))))"

text \<open>The loop over the rows of one table in \<^verbatim>\<open>scrape_team_contracts\<close>.\<close>

fun contract_rows ::
  "'r env \<Rightarrow> string \<Rightarrow> cell list list \<Rightarrow> pydict list \<Rightarrow> world \<Rightarrow> pydict list \<times> world" where
  "contract_rows E team_abbrev [] contracts w = (contracts, w)"
| "contract_rows E team_abbrev (cells # rows) contracts w =
     (if length cells < 3 then contract_rows E team_abbrev rows contracts w
      else
        (case parse_contract_row E cells team_abbrev w of
           (Inl e, w') \<Rightarrow>
             contract_rows E team_abbrev rows contracts (log ''debug'' ''parse_row_failed'' [] w')
         | (Inr None, w') \<Rightarrow> contract_rows E team_abbrev rows contracts w'
         | (Inr (Some contract), w') \<Rightarrow>
             if contract \<noteq> [] \<and> truthy (dget contract ''player_name'')
             then contract_rows E team_abbrev rows (contracts @ [contract]) w'
             else contract_rows E team_abbrev rows contracts w'))"

fun contract_tables ::
  "'r env \<Rightarrow> string \<Rightarrow> cell list list list \<Rightarrow> pydict list \<Rightarrow> world \<Rightarrow> pydict list \<times> world" where
  "contract_tables E team_abbrev [] contracts w = (contracts, w)"
| "contract_tables E team_abbrev (rows # tables) contracts w =
     (let (contracts', w') = contract_rows E team_abbrev rows contracts w
      in contract_tables E team_abbrev tables contracts' w')"

definition scrape_team_contracts ::
  "soup env \<Rightarrow> string \<Rightarrow> world \<Rightarrow> pydict list \<times> world" where
  "scrape_team_contracts E team_abbrev w0 =
     (case map_of TEAM_SLUGS team_abbrev of
        None \<Rightarrow> ([], log ''warning'' ''unknown_team'' [(''team'', PStr team_abbrev)] w0)
      | Some slug \<Rightarrow>
          if slug = [] then ([], log ''warning'' ''unknown_team'' [(''team'', PStr team_abbrev)] w0)
          else
            (let (resp, w1) = fetch E (''/'' @ slug @ ''/cap'') w0
             in case resp of
                  Inl e \<Rightarrow>
                    ([], log ''error'' ''puckpedia_fetch_failed'' [(''team'', PStr team_abbrev)] w1)
                | Inr page \<Rightarrow>
                    (let tables = (if cap_tables page = [] then all_tables page else cap_tables page);
                         (contracts, w2) = contract_tables E team_abbrev tables [] w1
                     in (contracts,
                         log ''info'' ''scraped_team_contracts''
                           [(''team'', PStr team_abbrev),
                            (''count'', PInt (int (length contracts)))] w2))))"

section \<open>The store\<close>














text \<open>
  The state of one \<^verbatim>\<open>upsert_...\<close> loop: the rows of the table as the session sees them
  (pending rows are flushed before every query), how often the clock has been read, and
  the counter \<^verbatim>\<open>count\<close>.
\<close>

record 'r session =
  rows :: "'r list"
  reads :: nat
  count :: nat




subsection \<open>\<^verbatim>\<open>upsert_players\<close>\<close>





subsection \<open>\<^verbatim>\<open>upsert_teams\<close>\<close>





subsection \<open>\<^verbatim>\<open>upsert_games\<close>\<close>





subsection \<open>\<^verbatim>\<open>upsert_contracts\<close>\<close>





subsection \<open>\<^verbatim>\<open>upsert_advanced_stats\<close>\<close>





subsection \<open>\<^verbatim>\<open>upsert_rosters\<close>\<close>











section \<open>The rate-limited client\<close>

text \<open>
  Modelled from the spec: the state of the rate limiter of the shared client
  (\<^verbatim>\<open>BaseScraper\<close> in \<^verbatim>\<open>scrapers/base.py\<close>, which is not among the sources).  Each
  scraper instance remembers when it issued its last request, if it has issued one.
  Times are seconds on the client's clock.
\<close>

record limiter =
  last_request :: "rat option"

text \<open>
  Modelled from the spec: \<^verbatim>\<open>get\<close>, under a ceiling of \<open>R\<close> requests per second.  A call
  made at time \<open>called\<close> blocks until \<open>1 / R\<close> seconds have passed since the last
  request, issues its own, and returns when the answer is there, \<open>latency\<close> seconds
  later.  The result is the time of the return and the new state.
\<close>

definition rate_limited_get :: "rat \<Rightarrow> rat \<Rightarrow> rat \<Rightarrow> limiter \<Rightarrow> rat \<times> limiter" where
  "rate_limited_get R called latency l =
     (let issued = (case last_request l of
                      None \<Rightarrow> called
                    | Some t \<Rightarrow> max called (t + 1 / R))
      in (issued + latency, \<lparr>last_request = Some issued\<rparr>))"

text \<open>
  Modelled from the spec: sequential calls through one client.  Each call is made some
  time \<open>gap\<close> after the one before it has returned; the result is the time at which the
  last call returns.
\<close>

fun sequential_gets :: "rat \<Rightarrow> (rat \<times> rat) list \<Rightarrow> rat \<Rightarrow> limiter \<Rightarrow> rat \<times> limiter" where
  "sequential_gets R [] t l = (t, l)"
| "sequential_gets R ((gap, latency) # calls) t l =
     (case rate_limited_get R (t + gap) latency l of
        (returned, l') \<Rightarrow> sequential_gets R calls returned l')"

section \<open>Concrete surroundings\<close>

text \<open>
  A world in which nothing has happened yet, and surroundings in which the clock stands
  still and every request fails.
\<close>

definition fresh_world :: world where
  "fresh_world = \<lparr>ticks = 0, requested = [], logged = []\<rparr>"

definition fixed_clock_env :: "datetime \<Rightarrow> 'r env" where
  "fixed_clock_env d = \<lparr>respond = (\<lambda>_. Inl HttpError), clock = (\<lambda>_. d)\<rparr>"

definition nov_2024 :: datetime where
  "nov_2024 =
     \<lparr>year = 2024, month = 11, day = 3, hour = 0, minute = 0, second = 0, microsecond = 0\<rparr>"

text \<open>A CSV row whose numeric cells, the player id apart, hold the text "n/a".\<close>

definition broken_row :: pydict where
  "broken_row =
     [(''playerId'', PStr ''8478402''),
      (''name'', PStr ''Connor McDavid''),
      (''situation'', PStr ''all''),
      (''games_played'', PStr ''n/a''),
      (''onIce_corsiPercentage'', PStr ''n/a''),
      (''OnIce_F_xGoals'', PStr ''n/a''),
      (''onGoalSavePercentage'', PStr ''n/a''),
      (''xGoals'', PStr ''n/a'')]"

text \<open>A table row for a player whose name contains "pos".\<close>

definition pospisil_row :: "cell list" where
  "pospisil_row =
     [\<lparr>cell_text = ''Martin Pospisil'', link_text = Some ''Martin Pospisil''\<rparr>,
      \<lparr>cell_text = ''$1,000,000'', link_text = None\<rparr>,
      \<lparr>cell_text = ''UFA'', link_text = None\<rparr>]"












section \<open>The rollover of the season\<close>

lemma length_digits10_4:
  assumes "1000 \<le> n" and "n \<le> 9999"
  shows "length (digits10 n) = 4"
proof -
  have a: "\<not> n < 10" "\<not> n div 10 < 10" "\<not> n div 10 div 10 < 10" "n div 10 div 10 div 10 < 10"
    using assms by auto
  show ?thesis
    by (subst digits10.simps, simp only: a if_False,
        subst digits10.simps, simp only: a if_False,
        subst digits10.simps, simp only: a if_False,
        subst digits10.simps, simp only: a if_True, simp)
qed

lemma length_str_int_4:
  assumes "1000 \<le> y" and "y \<le> 9999"
  shows "length (str_int y) = 4"
  using assms by (simp add: str_int_def length_digits10_4)

lemma str_int_examples:
  "str_int 2024 = ''2024''" "str_int 2025 = ''2025''"
  by (simp_all add: str_int_def digits10.simps digit_char_def)

text \<open>
  C3.  When the clock reads a month from October to December, the roster scraper's
  \<^verbatim>\<open>get_current_season\<close> returns the current year followed by the next year and the
  CSV scraper's returns the current year; when it reads a month from January to
  September they return the previous year followed by the current year, and the previous
  year.  For four-digit years the results have eight and four characters.
\<close>

theorem current_season_rollover:
  assumes "clock E (ticks w) = d"
  shows
  "(10 \<le> month d \<and> month d \<le> 12 \<longrightarrow>
      fst (roster_get_current_season E w) = str_int (year d) @ str_int (year d + 1)
      \<and> fst (moneypuck_get_current_season E w) = str_int (year d)
      \<and> (1000 \<le> year d \<and> year d + 1 \<le> 9999 \<longrightarrow>
           length (fst (roster_get_current_season E w)) = 8
           \<and> length (fst (moneypuck_get_current_season E w)) = 4))
   \<and> (1 \<le> month d \<and> month d \<le> 9 \<longrightarrow>
      fst (roster_get_current_season E w) = str_int (year d - 1) @ str_int (year d)
      \<and> fst (moneypuck_get_current_season E w) = str_int (year d - 1)
      \<and> (1000 \<le> year d - 1 \<and> year d \<le> 9999 \<longrightarrow>
           length (fst (roster_get_current_season E w)) = 8
           \<and> length (fst (moneypuck_get_current_season E w)) = 4))"
  using assms
  by (simp add: roster_get_current_season_def moneypuck_get_current_season_def now_def
        roster_season_of_def moneypuck_season_of_def Let_def length_str_int_4)

theorem current_season_rollover_witness:
  "fst (roster_get_current_season
      (fixed_clock_env \<lparr>year = 2024, month = 11, day = 3, hour = 0, minute = 0, second = 0, microsecond = 0\<rparr> :: unit env)
      fresh_world) = ''20242025''
  \<and> fst (moneypuck_get_current_season
      (fixed_clock_env \<lparr>year = 2024, month = 11, day = 3, hour = 0, minute = 0, second = 0, microsecond = 0\<rparr> :: unit env)
      fresh_world) = ''2024''
  \<and> fst (roster_get_current_season
      (fixed_clock_env \<lparr>year = 2025, month = 3, day = 3, hour = 0, minute = 0, second = 0, microsecond = 0\<rparr> :: unit env)
      fresh_world) = ''20242025''
  \<and> fst (moneypuck_get_current_season
      (fixed_clock_env \<lparr>year = 2025, month = 3, day = 3, hour = 0, minute = 0, second = 0, microsecond = 0\<rparr> :: unit env)
      fresh_world) = ''2024''"
  using current_season_rollover
          [of "fixed_clock_env \<lparr>year = 2024, month = 11, day = 3, hour = 0, minute = 0, second = 0, microsecond = 0\<rparr> :: unit env"
              fresh_world
              "\<lparr>year = 2024, month = 11, day = 3, hour = 0, minute = 0, second = 0, microsecond = 0\<rparr>"]
        current_season_rollover
          [of "fixed_clock_env \<lparr>year = 2025, month = 3, day = 3, hour = 0, minute = 0, second = 0, microsecond = 0\<rparr> :: unit env"
              fresh_world
              "\<lparr>year = 2025, month = 3, day = 3, hour = 0, minute = 0, second = 0, microsecond = 0\<rparr>"]
  by (simp add: fixed_clock_env_def str_int_examples)

section \<open>Roster requests\<close>

lemma requested_now [simp]: "requested (snd (now E w)) = requested w"
  by (simp add: now_def)

lemma requested_log [simp]: "requested (log l e k w) = requested w"
  by (simp add: log_def)

lemma requested_season [simp]: "requested (snd (roster_get_current_season E w)) = requested w"
  by (simp add: roster_get_current_season_def now_def split: prod.splits)

lemma requested_scrape_roster:
  "requested (snd (scrape_roster E team season w)) = requested w @ [roster_path team]"
  by (auto simp: scrape_roster_def fetch_def now_def roster_get_current_season_def Let_def
           split: prod.splits option.splits sum.splits)

lemma requested_loop:
  "requested (snd (scrape_rosters_loop E season teams rosters w))
     = requested w @ map roster_path teams"
proof (induction teams arbitrary: rosters w)
  case Nil
  then show ?case by simp
next
  case (Cons team teams)
  obtain r w' where sr: "scrape_roster E team (Some season) w = (r, w')"
    by (cases "scrape_roster E team (Some season) w")
  have rq: "requested w' = requested w @ [roster_path team]"
    using requested_scrape_roster [of E team "Some season" w] sr by simp
  show ?case
    by (cases r) (simp_all add: sr Cons.IH rq)
qed

text \<open>
  C5.  \<^verbatim>\<open>scrape_all_rosters\<close> issues exactly one roster request per entry of
  \<^verbatim>\<open>NHL_TEAMS\<close>, in order, whatever the answers are; the list has 33 entries, not 32, so
  a sweep makes 33 requests.
\<close>

theorem scrape_all_rosters_requests:
  "length NHL_TEAMS = 33
   \<and> requested (snd (scrape_all_rosters E season w))
       = requested w @ map roster_path NHL_TEAMS
   \<and> length (requested (snd (scrape_all_rosters E season w))) = length (requested w) + 33"
proof -
  have len: "length NHL_TEAMS = 33"
    by (simp add: NHL_TEAMS_def)
  have rq: "requested (snd (scrape_all_rosters E season w))
              = requested w @ map roster_path NHL_TEAMS"
    by (cases season)
       (simp_all add: scrape_all_rosters_def Let_def split_beta requested_loop)
  show ?thesis
    using len rq by simp
qed

section \<open>Dollar amounts\<close>

lemma parse_salary_plain: "parse_salary ''$1,500,000'' = Inr 1500000"
  by code_simp

lemma parse_salary_millions: "parse_salary ''$1.5M'' = Inr 1500000"
  by code_simp

lemma parse_salary_thousands: "parse_salary ''$750K'' = Inr 750000"
  by code_simp

lemma parse_salary_empty: "parse_salary [] = Inr 0"
  by (simp add: parse_salary_def)

lemma parse_salary_text: "parse_salary ''n/a'' = Inr 0"
  by code_simp

lemma parse_salary_4_1M: "parse_salary ''$4.1M'' = Inr 4099999"
  by code_simp

lemma parse_salary_2_01K: "parse_salary ''$2.01K'' = Inr 2009"
  by code_simp

text \<open>
  C4.  \<^verbatim>\<open>_parse_salary\<close> on the documented examples, and on two amounts where the float
  product truncates below the amount: "$4.1M" gives 4099999 and "$2.01K" gives 2009.
\<close>

theorem parse_salary_examples:
  "parse_salary ''$1,500,000'' = Inr 1500000
   \<and> parse_salary ''$1.5M'' = Inr 1500000
   \<and> parse_salary ''$750K'' = Inr 750000
   \<and> parse_salary [] = Inr 0
   \<and> parse_salary ''n/a'' = Inr 0
   \<and> parse_salary ''$4.1M'' = Inr 4099999
   \<and> parse_salary ''$2.01K'' = Inr 2009"
  by (intro conjI parse_salary_plain parse_salary_millions parse_salary_thousands
        parse_salary_empty parse_salary_text parse_salary_4_1M parse_salary_2_01K)

section \<open>CSV cells that are no numbers\<close>

lemma safe_int_unparseable:
  assumes "py_float_str s = Inl ValueError"
  shows "safe_int (PStr s) d = Inr d"
  using assms by (simp add: safe_int_def except_return_def bind_exn_def)

lemma safe_float_unparseable:
  assumes "py_float_str s = Inl ValueError"
  shows "safe_float (PStr s) d = Inr d"
  using assms by (simp add: safe_float_def except_return_def bind_exn_def)

lemma int_field_unparseable:
  assumes "py_float_str s = Inl ValueError" and "dget row c = PStr s"
  shows "int_field row c = Inr (PInt 0)"
  using assms by (simp add: int_field_def safe_int_unparseable bind_exn_def)

lemma float_field_unparseable:
  assumes "py_float_str s = Inl ValueError" and "dget row c = PStr s"
  shows "float_field row c = Inr PNone"
  using assms by (simp add: float_field_def safe_float_unparseable)

lemma float_field0_unparseable:
  assumes "py_float_str s = Inl ValueError" and "dget row c = PStr s"
  shows "float_field0 row c = Inr (PFloat (Finite 0))"
  using assms by (simp add: float_field0_def safe_float_unparseable)

lemma dict_of_lookup:
  assumes "dict_of kvs = Inr d"
  shows "map_of d k = (case map_of kvs k of
                         None \<Rightarrow> None
                       | Some r \<Rightarrow> (case r of Inl e \<Rightarrow> None | Inr v \<Rightarrow> Some v))"
  using assms
proof (induction kvs arbitrary: d rule: dict_of.induct)
  case 1
  then show ?case by simp
next
  case (2 k' e kvs)
  then show ?case by simp
next
  case (3 k' v kvs)
  then show ?case
    by (auto split: sum.splits if_splits)
qed

lemma dict_of_dget:
  assumes "dict_of kvs = Inr d"
  shows "dget d k = (case map_of kvs k of
                       None \<Rightarrow> PNone
                     | Some r \<Rightarrow> (case r of Inl e \<Rightarrow> PNone | Inr v \<Rightarrow> v))"
  by (simp add: dget_def dict_of_lookup [OF assms] split: option.splits sum.splits)

lemma skater_int_cells:
  assumes "parse_skater_row row season = Inr out" and "py_float_str s = Inl ValueError"
  shows "\<forall>(c, k) \<in> set
            [(''playerId'', ''player_id''), (''games_played'', ''games_played''),
             (''icetime'', ''toi_seconds''), (''OnIce_A_shotAttempts'', ''corsi_against''),
             (''OnIce_F_unblockedShotAttempts'', ''fenwick_for''),
             (''OnIce_A_unblockedShotAttempts'', ''fenwick_against''),
             (''OnIce_F_scoringChances'', ''scoring_chances_for''),
             (''OnIce_A_scoringChances'', ''scoring_chances_against''),
             (''OnIce_F_highDangerShotAttempts'', ''high_danger_chances_for''),
             (''OnIce_A_highDangerShotAttempts'', ''high_danger_chances_against''),
             (''OnIce_F_highDangerGoals'', ''high_danger_goals_for''),
             (''OnIce_A_highDangerGoals'', ''high_danger_goals_against''),
             (''I_F_oZoneShiftStarts'', ''offensive_zone_starts''),
             (''I_F_dZoneShiftStarts'', ''defensive_zone_starts''),
             (''I_F_neutralZoneShiftStarts'', ''neutral_zone_starts''),
             (''I_F_shotsOnGoal'', ''shots''), (''I_F_goals'', ''goals''),
             (''I_F_primaryAssists'', ''primary_assists''),
             (''I_F_secondaryAssists'', ''secondary_assists''),
             (''I_F_shotAttempts'', ''individual_corsi_for'')].
           dget row c = PStr s \<longrightarrow> dget out k = PInt 0"
  using int_field_unparseable [OF assms(2), of row]
  by (simp add: dict_of_dget [OF assms(1) [unfolded parse_skater_row_def]])

lemma skater_float_cells:
  assumes "parse_skater_row row season = Inr out" and "py_float_str s = Inl ValueError"
  shows "\<forall>(c, k) \<in> set
            [(''onIce_corsiPercentage'', ''corsi_pct''),
             (''offIce_corsiPercentage'', ''corsi_rel''),
             (''onIce_fenwickPercentage'', ''fenwick_pct''),
             (''onIce_xGoalsPercentage'', ''xg_pct''),
             (''I_F_xGoals_with_rebounds_normalized_per_game'', ''goals_above_expected''),
             (''offensiveZoneStartPct'', ''offensive_zone_start_pct''),
             (''onIce_F_shootingPct'', ''on_ice_sh_pct''),
             (''onIce_A_savePct'', ''on_ice_sv_pct''),
             (''PDO'', ''pdo'')].
           dget row c = PStr s \<longrightarrow> dget out k = PNone"
  using float_field_unparseable [OF assms(2), of row]
  by (simp add: dict_of_dget [OF assms(1) [unfolded parse_skater_row_def]])

lemma skater_float0_cells:
  assumes "parse_skater_row row season = Inr out" and "py_float_str s = Inl ValueError"
  shows "\<forall>(c, k) \<in> set
            [(''OnIce_F_xGoals'', ''xg_for''), (''OnIce_A_xGoals'', ''xg_against''),
             (''I_F_xGoals'', ''individual_xg'')].
           dget row c = PStr s \<longrightarrow> dget out k = PFloat (Finite 0)"
  using float_field0_unparseable [OF assms(2), of row]
  by (simp add: dict_of_dget [OF assms(1) [unfolded parse_skater_row_def]])

lemma goalie_cells:
  assumes "parse_goalie_row row season = Inr out" and "py_float_str s = Inl ValueError"
  shows "(\<forall>(c, k) \<in> set
            [(''playerId'', ''player_id''), (''games_played'', ''games_played''),
             (''icetime'', ''toi_seconds''), (''shotsOnGoal'', ''shots_against''),
             (''goals'', ''goals_against''),
             (''lowDangerShotsOnGoal'', ''low_danger_shots''),
             (''lowDangerGoals'', ''low_danger_goals''),
             (''mediumDangerShotsOnGoal'', ''medium_danger_shots''),
             (''mediumDangerGoals'', ''medium_danger_goals''),
             (''highDangerShotsOnGoal'', ''high_danger_shots''),
             (''highDangerGoals'', ''high_danger_goals''),
             (''reboundsCreated'', ''rebounds_given''),
             (''reboundGoals'', ''rebound_goals_against'')].
           dget row c = PStr s \<longrightarrow> dget out k = PInt 0)
       \<and> (\<forall>(c, k) \<in> set
            [(''onGoalSavePercentage'', ''save_pct''),
             (''goalsAboveExpected'', ''goals_saved_above_expected''),
             (''lowDangerSavePercentage'', ''low_danger_save_pct''),
             (''mediumDangerSavePercentage'', ''medium_danger_save_pct''),
             (''highDangerSavePercentage'', ''high_danger_save_pct''),
             (''freezePct'', ''freeze_pct'')].
           dget row c = PStr s \<longrightarrow> dget out k = PNone)
       \<and> (dget row ''xGoals'' = PStr s \<longrightarrow> dget out ''xg_against'' = PFloat (Finite 0))"
proof -
  obtain sa ga where
    sa: "safe_int (dget row ''shotsOnGoal'') 0 = Inr sa" and
    ga: "safe_int (dget row ''goals'') 0 = Inr ga" and
    d: "dict_of
       [(''player_id'', int_field row ''playerId''),
        (''player_name'', Inr (dget_default row ''name'' (PStr []))),
        (''team_abbrev'', Inr (dget_default row ''team'' (PStr []))),
        (''season'', double_season season),
        (''situation'', Inr (dget_default row ''situation'' (PStr ''all''))),
        (''games_played'', int_field row ''games_played''),
        (''toi_seconds'', int_field row ''icetime''),
        (''shots_against'', Inr (PInt sa)),
        (''goals_against'', Inr (PInt ga)),
        (''saves'', Inr (PInt (sa - ga))),
        (''save_pct'', float_field row ''onGoalSavePercentage''),
        (''xg_against'', float_field0 row ''xGoals''),
        (''goals_saved_above_expected'', float_field row ''goalsAboveExpected''),
        (''low_danger_shots'', int_field row ''lowDangerShotsOnGoal''),
        (''low_danger_goals'', int_field row ''lowDangerGoals''),
        (''low_danger_save_pct'', float_field row ''lowDangerSavePercentage''),
        (''medium_danger_shots'', int_field row ''mediumDangerShotsOnGoal''),
        (''medium_danger_goals'', int_field row ''mediumDangerGoals''),
        (''medium_danger_save_pct'', float_field row ''mediumDangerSavePercentage''),
        (''high_danger_shots'', int_field row ''highDangerShotsOnGoal''),
        (''high_danger_goals'', int_field row ''highDangerGoals''),
        (''high_danger_save_pct'', float_field row ''highDangerSavePercentage''),
        (''rebounds_given'', int_field row ''reboundsCreated''),
        (''rebound_goals_against'', int_field row ''reboundGoals''),
        (''freeze_pct'', float_field row ''freezePct''),
        (''source'', Inr (PStr ''moneypuck''))] = Inr out"
    using assms(1) unfolding parse_goalie_row_def bind_exn_def
    by (auto split: sum.splits)
  have sa0: "dget row ''shotsOnGoal'' = PStr s \<Longrightarrow> sa = 0"
    using sa safe_int_unparseable [OF assms(2), of 0] by simp
  have ga0: "dget row ''goals'' = PStr s \<Longrightarrow> ga = 0"
    using ga safe_int_unparseable [OF assms(2), of 0] by simp
  show ?thesis
    using int_field_unparseable [OF assms(2), of row]
      float_field_unparseable [OF assms(2), of row]
      float_field0_unparseable [OF assms(2), of row] sa0 ga0
    by (simp add: dict_of_dget [OF d])
qed

text \<open>
  C7, as the code has it.  A CSV cell that \<^verbatim>\<open>float\<close> rejects never makes the coercion
  raise: \<^verbatim>\<open>safe_int\<close> and \<^verbatim>\<open>safe_float\<close> return their default.  In a parsed row every
  int field read from such a cell is 0; a float field is \<^verbatim>\<open>None\<close>, except the expected
  goals fields (\<^verbatim>\<open>xg_for\<close>, \<^verbatim>\<open>xg_against\<close>, \<^verbatim>\<open>individual_xg\<close>, and the goalies'
  \<^verbatim>\<open>xg_against\<close>), whose default is 0.0.
\<close>

theorem unparseable_cell_defaults:
  assumes "py_float_str s = Inl ValueError"
  shows
    "safe_int (PStr s) d = Inr d
     \<and> safe_float (PStr s) dflt = Inr dflt
     \<and> (\<forall>out. parse_skater_row row season = Inr out \<longrightarrow>
          (\<forall>(c, k) \<in> set
            [(''playerId'', ''player_id''), (''games_played'', ''games_played''),
             (''icetime'', ''toi_seconds''), (''OnIce_A_shotAttempts'', ''corsi_against''),
             (''OnIce_F_unblockedShotAttempts'', ''fenwick_for''),
             (''OnIce_A_unblockedShotAttempts'', ''fenwick_against''),
             (''OnIce_F_scoringChances'', ''scoring_chances_for''),
             (''OnIce_A_scoringChances'', ''scoring_chances_against''),
             (''OnIce_F_highDangerShotAttempts'', ''high_danger_chances_for''),
             (''OnIce_A_highDangerShotAttempts'', ''high_danger_chances_against''),
             (''OnIce_F_highDangerGoals'', ''high_danger_goals_for''),
             (''OnIce_A_highDangerGoals'', ''high_danger_goals_against''),
             (''I_F_oZoneShiftStarts'', ''offensive_zone_starts''),
             (''I_F_dZoneShiftStarts'', ''defensive_zone_starts''),
             (''I_F_neutralZoneShiftStarts'', ''neutral_zone_starts''),
             (''I_F_shotsOnGoal'', ''shots''), (''I_F_goals'', ''goals''),
             (''I_F_primaryAssists'', ''primary_assists''),
             (''I_F_secondaryAssists'', ''secondary_assists''),
             (''I_F_shotAttempts'', ''individual_corsi_for'')].
           dget row c = PStr s \<longrightarrow> dget out k = PInt 0)
          \<and> (\<forall>(c, k) \<in> set
            [(''onIce_corsiPercentage'', ''corsi_pct''),
             (''offIce_corsiPercentage'', ''corsi_rel''),
             (''onIce_fenwickPercentage'', ''fenwick_pct''),
             (''onIce_xGoalsPercentage'', ''xg_pct''),
             (''I_F_xGoals_with_rebounds_normalized_per_game'', ''goals_above_expected''),
             (''offensiveZoneStartPct'', ''offensive_zone_start_pct''),
             (''onIce_F_shootingPct'', ''on_ice_sh_pct''),
             (''onIce_A_savePct'', ''on_ice_sv_pct''),
             (''PDO'', ''pdo'')].
           dget row c = PStr s \<longrightarrow> dget out k = PNone)
          \<and> (\<forall>(c, k) \<in> set
            [(''OnIce_F_xGoals'', ''xg_for''), (''OnIce_A_xGoals'', ''xg_against''),
             (''I_F_xGoals'', ''individual_xg'')].
           dget row c = PStr s \<longrightarrow> dget out k = PFloat (Finite 0)))
     \<and> (\<forall>out. parse_goalie_row row season = Inr out \<longrightarrow>
          (\<forall>(c, k) \<in> set
            [(''playerId'', ''player_id''), (''games_played'', ''games_played''),
             (''icetime'', ''toi_seconds''), (''shotsOnGoal'', ''shots_against''),
             (''goals'', ''goals_against''),
             (''lowDangerShotsOnGoal'', ''low_danger_shots''),
             (''lowDangerGoals'', ''low_danger_goals''),
             (''mediumDangerShotsOnGoal'', ''medium_danger_shots''),
             (''mediumDangerGoals'', ''medium_danger_goals''),
             (''highDangerShotsOnGoal'', ''high_danger_shots''),
             (''highDangerGoals'', ''high_danger_goals''),
             (''reboundsCreated'', ''rebounds_given''),
             (''reboundGoals'', ''rebound_goals_against'')].
           dget row c = PStr s \<longrightarrow> dget out k = PInt 0)
          \<and> (\<forall>(c, k) \<in> set
            [(''onGoalSavePercentage'', ''save_pct''),
             (''goalsAboveExpected'', ''goals_saved_above_expected''),
             (''lowDangerSavePercentage'', ''low_danger_save_pct''),
             (''mediumDangerSavePercentage'', ''medium_danger_save_pct''),
             (''highDangerSavePercentage'', ''high_danger_save_pct''),
             (''freezePct'', ''freeze_pct'')].
           dget row c = PStr s \<longrightarrow> dget out k = PNone)
          \<and> (dget row ''xGoals'' = PStr s \<longrightarrow> dget out ''xg_against'' = PFloat (Finite 0)))"
proof (intro conjI allI impI)
  show "safe_int (PStr s) d = Inr d"
    by (rule safe_int_unparseable [OF assms])
  show "safe_float (PStr s) dflt = Inr dflt"
    by (rule safe_float_unparseable [OF assms])
next
  fix out
  assume p: "parse_skater_row row season = Inr out"
  show "\<forall>(c, k) \<in> set
            [(''playerId'', ''player_id''), (''games_played'', ''games_played''),
             (''icetime'', ''toi_seconds''), (''OnIce_A_shotAttempts'', ''corsi_against''),
             (''OnIce_F_unblockedShotAttempts'', ''fenwick_for''),
             (''OnIce_A_unblockedShotAttempts'', ''fenwick_against''),
             (''OnIce_F_scoringChances'', ''scoring_chances_for''),
             (''OnIce_A_scoringChances'', ''scoring_chances_against''),
             (''OnIce_F_highDangerShotAttempts'', ''high_danger_chances_for''),
             (''OnIce_A_highDangerShotAttempts'', ''high_danger_chances_against''),
             (''OnIce_F_highDangerGoals'', ''high_danger_goals_for''),
             (''OnIce_A_highDangerGoals'', ''high_danger_goals_against''),
             (''I_F_oZoneShiftStarts'', ''offensive_zone_starts''),
             (''I_F_dZoneShiftStarts'', ''defensive_zone_starts''),
             (''I_F_neutralZoneShiftStarts'', ''neutral_zone_starts''),
             (''I_F_shotsOnGoal'', ''shots''), (''I_F_goals'', ''goals''),
             (''I_F_primaryAssists'', ''primary_assists''),
             (''I_F_secondaryAssists'', ''secondary_assists''),
             (''I_F_shotAttempts'', ''individual_corsi_for'')].
           dget row c = PStr s \<longrightarrow> dget out k = PInt 0"
    by (rule skater_int_cells [OF p assms])
  show "\<forall>(c, k) \<in> set
            [(''onIce_corsiPercentage'', ''corsi_pct''),
             (''offIce_corsiPercentage'', ''corsi_rel''),
             (''onIce_fenwickPercentage'', ''fenwick_pct''),
             (''onIce_xGoalsPercentage'', ''xg_pct''),
             (''I_F_xGoals_with_rebounds_normalized_per_game'', ''goals_above_expected''),
             (''offensiveZoneStartPct'', ''offensive_zone_start_pct''),
             (''onIce_F_shootingPct'', ''on_ice_sh_pct''),
             (''onIce_A_savePct'', ''on_ice_sv_pct''),
             (''PDO'', ''pdo'')].
           dget row c = PStr s \<longrightarrow> dget out k = PNone"
    by (rule skater_float_cells [OF p assms])
  show "\<forall>(c, k) \<in> set
            [(''OnIce_F_xGoals'', ''xg_for''), (''OnIce_A_xGoals'', ''xg_against''),
             (''I_F_xGoals'', ''individual_xg'')].
           dget row c = PStr s \<longrightarrow> dget out k = PFloat (Finite 0)"
    by (rule skater_float0_cells [OF p assms])
next
  fix out
  assume p: "parse_goalie_row row season = Inr out"
  note g = goalie_cells [OF p assms]
  show "\<forall>(c, k) \<in> set
            [(''playerId'', ''player_id''), (''games_played'', ''games_played''),
             (''icetime'', ''toi_seconds''), (''shotsOnGoal'', ''shots_against''),
             (''goals'', ''goals_against''),
             (''lowDangerShotsOnGoal'', ''low_danger_shots''),
             (''lowDangerGoals'', ''low_danger_goals''),
             (''mediumDangerShotsOnGoal'', ''medium_danger_shots''),
             (''mediumDangerGoals'', ''medium_danger_goals''),
             (''highDangerShotsOnGoal'', ''high_danger_shots''),
             (''highDangerGoals'', ''high_danger_goals''),
             (''reboundsCreated'', ''rebounds_given''),
             (''reboundGoals'', ''rebound_goals_against'')].
           dget row c = PStr s \<longrightarrow> dget out k = PInt 0"
    by (rule conjunct1 [OF g])
  show "\<forall>(c, k) \<in> set
            [(''onGoalSavePercentage'', ''save_pct''),
             (''goalsAboveExpected'', ''goals_saved_above_expected''),
             (''lowDangerSavePercentage'', ''low_danger_save_pct''),
             (''mediumDangerSavePercentage'', ''medium_danger_save_pct''),
             (''highDangerSavePercentage'', ''high_danger_save_pct''),
             (''freezePct'', ''freeze_pct'')].
           dget row c = PStr s \<longrightarrow> dget out k = PNone"
    by (rule conjunct1 [OF conjunct2 [OF g]])
  assume "dget row ''xGoals'' = PStr s"
  then show "dget out ''xg_against'' = PFloat (Finite 0)"
    using conjunct2 [OF conjunct2 [OF g]] by simp
qed

lemma na_unparseable: "py_float_str ''n/a'' = Inl ValueError"
  by code_simp

lemma broken_row_skater: "\<not> isl (parse_skater_row broken_row ''2024'')"
  by code_simp

lemma broken_row_goalie: "\<not> isl (parse_goalie_row broken_row ''2024'')"
  by code_simp

theorem unparseable_cell_defaults_witness:
  "py_float_str ''n/a'' = Inl ValueError
   \<and> safe_int (PStr ''n/a'') 0 = Inr 0
   \<and> safe_float (PStr ''n/a'') PNone = Inr PNone
   \<and> (\<exists>out. parse_skater_row broken_row ''2024'' = Inr out
         \<and> dget out ''games_played'' = PInt 0
         \<and> dget out ''corsi_pct'' = PNone
         \<and> dget out ''xg_for'' = PFloat (Finite 0))
   \<and> (\<exists>out. parse_goalie_row broken_row ''2024'' = Inr out
         \<and> dget out ''games_played'' = PInt 0
         \<and> dget out ''save_pct'' = PNone
         \<and> dget out ''xg_against'' = PFloat (Finite 0))"
proof -
  note t = unparseable_cell_defaults [OF na_unparseable, of _ _ broken_row "''2024''"]
  obtain sk where sk: "parse_skater_row broken_row ''2024'' = Inr sk"
    using broken_row_skater by (cases "parse_skater_row broken_row ''2024''") auto
  obtain go where go: "parse_goalie_row broken_row ''2024'' = Inr go"
    using broken_row_goalie by (cases "parse_goalie_row broken_row ''2024''") auto
  have cells: "dget broken_row ''games_played'' = PStr ''n/a''"
    "dget broken_row ''onIce_corsiPercentage'' = PStr ''n/a''"
    "dget broken_row ''OnIce_F_xGoals'' = PStr ''n/a''"
    "dget broken_row ''onGoalSavePercentage'' = PStr ''n/a''"
    "dget broken_row ''xGoals'' = PStr ''n/a''"
    by (simp_all add: broken_row_def dget_def)
  from t [of 0 PNone] sk cells
  have a: "dget sk ''games_played'' = PInt 0 \<and> dget sk ''corsi_pct'' = PNone
           \<and> dget sk ''xg_for'' = PFloat (Finite 0)"
    by simp
  from t [of 0 PNone] go cells
  have b: "dget go ''games_played'' = PInt 0 \<and> dget go ''save_pct'' = PNone
           \<and> dget go ''xg_against'' = PFloat (Finite 0)"
    by simp
  show ?thesis
    using t [of 0 PNone] na_unparseable sk go a b by simp
qed

text \<open>
  The claim as written fails on the float fields that pass 0.0 as their default: a row
  whose \<^verbatim>\<open>OnIce_F_xGoals\<close> cell is "n/a" gets \<^verbatim>\<open>xg_for = 0.0\<close>, not \<^verbatim>\<open>None\<close>.
\<close>

theorem float_field_none_counterexample:
  "py_float_str ''n/a'' = Inl ValueError
   \<and> dget broken_row ''OnIce_F_xGoals'' = PStr ''n/a''
   \<and> map_sum id (\<lambda>out. dget out ''xg_for'') (parse_skater_row broken_row ''2024'')
       = Inr (PFloat (Finite 0))
   \<and> PFloat (Finite 0) \<noteq> PNone"
  by code_simp

section \<open>A CSV that cannot be fetched\<close>

lemma logged_moneypuck_season [simp]:
  "logged (snd (moneypuck_season E season w)) = logged w"
  by (cases season)
     (simp_all add: moneypuck_season_def moneypuck_get_current_season_def now_def)

text \<open>
  C8.  When the request for the season's CSV fails, \<^verbatim>\<open>scrape_skater_stats\<close> and
  \<^verbatim>\<open>scrape_goalie_stats\<close> return the empty list, not the exception, and log one
  \<^verbatim>\<open>moneypuck_fetch_failed\<close> error.
\<close>

theorem fetch_failure_returns_empty:
  "(respond E (skaters_url (fst (moneypuck_season E season w))) = Inl e \<longrightarrow>
      fst (scrape_skater_stats E season situation w) = Inr []
      \<and> logged (snd (scrape_skater_stats E season situation w))
          = logged w @ [LogEvent ''error'' ''moneypuck_fetch_failed''
                          [(''url'', PStr (skaters_url (fst (moneypuck_season E season w))))]])
   \<and> (respond E (goalies_url (fst (moneypuck_season E season w))) = Inl e' \<longrightarrow>
      fst (scrape_goalie_stats E season w) = Inr []
      \<and> logged (snd (scrape_goalie_stats E season w))
          = logged w @ [LogEvent ''error'' ''moneypuck_fetch_failed''
                          [(''url'', PStr (goalies_url (fst (moneypuck_season E season w))))]])"
proof -
  obtain s w1 where m: "moneypuck_season E season w = (s, w1)"
    by (cases "moneypuck_season E season w")
  have l: "logged w1 = logged w"
    using logged_moneypuck_season [of E season w] m by simp
  show ?thesis
    by (simp add: scrape_skater_stats_def scrape_goalie_stats_def m l fetch_def log_def Let_def)
qed

theorem fetch_failure_returns_empty_witness:
  "fst (scrape_skater_stats (fixed_clock_env nov_2024) (Some ''2024'') ''all'' fresh_world) = Inr []
   \<and> fst (scrape_goalie_stats (fixed_clock_env nov_2024) None fresh_world) = Inr []"
  using fetch_failure_returns_empty
          [of "fixed_clock_env nov_2024" "Some ''2024''" fresh_world HttpError "''all''" HttpError]
        fetch_failure_returns_empty
          [of "fixed_clock_env nov_2024" None fresh_world HttpError "''all''" HttpError]
  by (simp add: fixed_clock_env_def)

section \<open>Header rows of a contract table\<close>

lemma starts_with_append: "starts_with n (n @ s)"
  by (induction n) auto

lemma contains_append: "contains n (p @ n @ s)"
proof (induction p)
  case Nil
  show ?case
    by (cases "n @ s") (use starts_with_append [of n s] in auto)
next
  case (Cons a p)
  then show ?case by simp
qed

text \<open>
  C10.  A row whose first cell's text, in lower case, contains "player", "name" or "pos"
  makes \<^verbatim>\<open>_parse_contract_row\<close> return \<^verbatim>\<open>None\<close> without reading the clock, and the row
  loop of \<^verbatim>\<open>scrape_team_contracts\<close> goes on as if the row were not there: a player
  whose name contains such a keyword gets no contract record.
\<close>

theorem header_keyword_rows_skipped:
  assumes "h \<in> set header_keywords" and "lower (cell_text c) = pre @ h @ post"
  shows "parse_contract_row E (c # cs) team_abbrev w = (Inr None, w)
         \<and> contract_rows E team_abbrev ((c # cs) # more_rows) contracts w
             = contract_rows E team_abbrev more_rows contracts w"
proof -
  have "contains h (lower (cell_text c))"
    using assms(2) contains_append [of h pre post] by simp
  then have ex: "list_ex (\<lambda>h. contains h (lower (cell_text c))) header_keywords"
    using assms(1) by (auto simp: list_ex_iff)
  have p: "parse_contract_row E (c # cs) team_abbrev w = (Inr None, w)"
    using ex by (simp add: parse_contract_row_def)
  show ?thesis
    using p by simp
qed

lemma pospisil_lower:
  "lower (cell_text (hd pospisil_row)) = ''martin '' @ ''pos'' @ ''pisil''"
  by code_simp

theorem header_keyword_rows_skipped_witness:
  "''pos'' \<in> set header_keywords
   \<and> lower ''Martin Pospisil'' = ''martin '' @ ''pos'' @ ''pisil''
   \<and> parse_contract_row (fixed_clock_env nov_2024 :: soup env) pospisil_row ''CGY'' fresh_world
       = (Inr None, fresh_world)
   \<and> contract_rows (fixed_clock_env nov_2024 :: soup env) ''CGY'' [pospisil_row] [] fresh_world
       = ([], fresh_world)"
proof -
  have k: "''pos'' \<in> set header_keywords"
    by (simp add: header_keywords_def)
  have l: "lower (cell_text \<lparr>cell_text = ''Martin Pospisil'', link_text = Some ''Martin Pospisil''\<rparr>)
             = ''martin '' @ ''pos'' @ ''pisil''"
    using pospisil_lower by (simp add: pospisil_row_def)
  show ?thesis
    using header_keyword_rows_skipped [OF k l, of "fixed_clock_env nov_2024 :: soup env"
        "[\<lparr>cell_text = ''$1,000,000'', link_text = None\<rparr>, \<lparr>cell_text = ''UFA'', link_text = None\<rparr>]"
        "''CGY''" fresh_world "[]" "[]"] k l
    by (simp add: pospisil_row_def)
qed

section \<open>The pace of sequential requests\<close>

lemma rate_limited_get_spacing:
  assumes "last_request l = Some s"
  shows "\<exists>issued. last_request (snd (rate_limited_get R called latency l)) = Some issued
           \<and> s + 1 / R \<le> issued \<and> called \<le> issued
           \<and> fst (rate_limited_get R called latency l) = issued + latency"
  using assms by (simp add: rate_limited_get_def Let_def)

lemma sequential_gets_after:
  assumes "0 < R" and "\<forall>(gap, latency) \<in> set calls. 0 \<le> gap \<and> 0 \<le> latency"
    and "last_request l = Some s" and "s \<le> t"
  shows "s + of_nat (length calls) / R \<le> fst (sequential_gets R calls t l)"
  using assms(2-)
proof (induction calls arbitrary: t l s)
  case Nil
  then show ?case by simp
next
  case (Cons call calls)
  obtain gap latency where call: "call = (gap, latency)"
    by (cases call)
  have nn: "0 \<le> gap" "0 \<le> latency"
    using Cons.prems(1) call by auto
  obtain returned l' where g: "rate_limited_get R (t + gap) latency l = (returned, l')"
    by (cases "rate_limited_get R (t + gap) latency l")
  obtain issued where
    i: "last_request l' = Some issued" and
    sp: "s + 1 / R \<le> issued" and
    r: "returned = issued + latency"
    using rate_limited_get_spacing [OF Cons.prems(2), of R "t + gap" latency] g by auto
  have rest: "\<forall>(gap, latency) \<in> set calls. 0 \<le> gap \<and> 0 \<le> latency"
    using Cons.prems(1) by simp
  have le: "issued \<le> returned"
    using nn r by simp
  have ih: "issued + of_nat (length calls) / R \<le> fst (sequential_gets R calls returned l')"
    by (rule Cons.IH [OF rest i le])
  have "s + of_nat (length (call # calls)) / R = s + 1 / R + of_nat (length calls) / R"
    by (simp add: add_divide_distrib)
  also have "\<dots> \<le> issued + of_nat (length calls) / R"
    using sp by simp
  also have "\<dots> \<le> fst (sequential_gets R (call # calls) t l)"
    using ih by (simp add: call g)
  finally show ?case .
qed

text \<open>
  C6.  With a ceiling of \<open>R > 0\<close> requests per second, \<open>N \<ge> 1\<close> sequential calls, started
  at time \<open>t\<close> on a client whose last request, if any, is not in the future, return no
  earlier than \<open>t + (N - 1) / R\<close>, whatever the pauses between the calls and the
  latencies of the requests; and a request is issued no earlier than \<open>1 / R\<close> after the
  one before it.
\<close>

theorem sequential_gets_take_time:
  assumes "0 < R" and "calls \<noteq> []"
    and "\<forall>(gap, latency) \<in> set calls. 0 \<le> gap \<and> 0 \<le> latency"
    and "\<forall>s. last_request l = Some s \<longrightarrow> s \<le> t"
  shows "t + (of_nat (length calls) - 1) / R \<le> fst (sequential_gets R calls t l)
         \<and> (\<forall>s called latency. last_request l = Some s \<longrightarrow>
               (\<exists>issued. last_request (snd (rate_limited_get R called latency l)) = Some issued
                  \<and> s + 1 / R \<le> issued))"
proof
  obtain gap latency rest where calls: "calls = (gap, latency) # rest"
    using assms(2) by (cases calls) auto
  have nn: "0 \<le> gap" "0 \<le> latency"
    using assms(3) calls by auto
  have rest: "\<forall>(gap, latency) \<in> set rest. 0 \<le> gap \<and> 0 \<le> latency"
    using assms(3) calls by simp
  define issued where
    "issued = (case last_request l of None \<Rightarrow> t + gap | Some s \<Rightarrow> max (t + gap) (s + 1 / R))"
  have g: "rate_limited_get R (t + gap) latency l = (issued + latency, \<lparr>last_request = Some issued\<rparr>)"
    by (simp add: rate_limited_get_def issued_def Let_def)
  have ti: "t \<le> issued"
    using nn by (simp add: issued_def le_max_iff_disj split: option.splits)
  have "issued + of_nat (length rest) / R
          \<le> fst (sequential_gets R rest (issued + latency) \<lparr>last_request = Some issued\<rparr>)"
    using sequential_gets_after [OF assms(1) rest, of "\<lparr>last_request = Some issued\<rparr>" issued
        "issued + latency"] nn
    by simp
  then have "t + of_nat (length rest) / R \<le> fst (sequential_gets R calls t l)"
    using ti by (simp add: calls g)
  then show "t + (of_nat (length calls) - 1) / R \<le> fst (sequential_gets R calls t l)"
    by (simp add: calls)
next
  show "\<forall>s called latency. last_request l = Some s \<longrightarrow>
          (\<exists>issued. last_request (snd (rate_limited_get R called latency l)) = Some issued
             \<and> s + 1 / R \<le> issued)"
    using rate_limited_get_spacing by blast
qed

theorem sequential_gets_take_time_witness:
  "(0::rat) < 2
   \<and> (0::rat) + (of_nat (length [(0::rat, 0::rat), (0, 0), (0, 0)]) - 1) / 2
       \<le> fst (sequential_gets 2 [(0, 0), (0, 0), (0, 0)] 0 \<lparr>last_request = None\<rparr>)
   \<and> fst (sequential_gets 2 [(0, 0), (0, 0), (0, 0)] 0 \<lparr>last_request = None\<rparr>) = 1
   \<and> fst (sequential_gets 2 [(0, 1/4), (1, 0)] 10 \<lparr>last_request = Some 10\<rparr>) = 47/4"
proof -
  have a: "(0::rat) < 2"
    by simp
  have b: "[(0::rat, 0::rat), (0, 0), (0, 0)] \<noteq> []"
    by simp
  have c: "\<forall>(gap, latency) \<in> set [(0::rat, 0::rat), (0, 0), (0, 0)]. 0 \<le> gap \<and> 0 \<le> latency"
    by simp
  have d: "\<forall>s. last_request \<lparr>last_request = None\<rparr> = Some s \<longrightarrow> s \<le> (0::rat)"
    by simp
  have e: "fst (sequential_gets 2 [(0, 0), (0, 0), (0, 0)] 0 \<lparr>last_request = None\<rparr>) = 1"
    by (simp add: rate_limited_get_def Let_def)
  have f: "fst (sequential_gets 2 [(0, 1/4), (1, 0)] 10 \<lparr>last_request = Some 10\<rparr>) = 47/4"
    by (simp add: rate_limited_get_def Let_def)
  show ?thesis
    using conjunct1 [OF sequential_gets_take_time [OF a b c d]] a e f by simp
qed

section \<open>The store: rows with a key\<close>






subsection \<open>One write\<close>






subsection \<open>A batch of writes\<close>








subsection \<open>Players\<close>







subsection \<open>Teams\<close>







subsection \<open>Games\<close>







subsection \<open>Contracts\<close>







subsection \<open>Advanced statistics\<close>







subsection \<open>Roster entries\<close>




subsection \<open>Rosters\<close>










section \<open>The same record, twice\<close>




section \<open>What an upsert counts\<close>





section \<open>What a write carries\<close>




end
